theory Spec2Isabelle
  imports Main "HOL-Library.Multiset"
begin

section \<open>Data model\<close>

text \<open>
  The tables of \<^verbatim>\<open>supabase/seed.sql\<close> as the pages read them
  (\<^verbatim>\<open>interface Pickup\<close> and \<^verbatim>\<open>interface Impact\<close> of
  \<^verbatim>\<open>pages/driver/jobs.tsx\<close>). A \<^verbatim>\<open>timestamptz\<close> is an integer number of
  clock ticks; \<^verbatim>\<open>new Date().toISOString()\<close> is the reading \<open>now\<close> of the caller's
  clock. A JavaScript number holding a database \<^verbatim>\<open>int\<close> is an \<open>int\<close>: sums of
  such values are exact below \<open>2^53\<close>, and the model keeps them exact throughout.
  The column \<^verbatim>\<open>id\<close> of a pickup is the field \<open>id_p\<close>.
\<close>

type_synonym timestamp = int

datatype pickup_state = queued | assigned | collected | delivered

record Pickup =
  id_p :: string
  bin_id :: string
  volunteer_id :: "string option"
  state :: pickup_state
  created_at :: timestamp
  updated_at :: timestamp

text \<open>
  An Impact object with fields of type \<open>'n\<close>: a row of the table has nullable
  \<^verbatim>\<open>int\<close> columns (\<open>int option Impact\<close>), the accumulator of the dashboard's
  \<^verbatim>\<open>reduce\<close> has numbers (\<open>int Impact\<close>).
\<close>

record 'n Impact =
  cans :: 'n
  revenue_pence :: 'n
  meals :: 'n

record db =
  Pickup_table :: "Pickup list"
  Impact_table :: "int option Impact list"

text \<open>The position of a state in \<^verbatim>\<open>'queued' | 'assigned' | 'collected' | 'delivered'\<close>.\<close>

fun state_rank :: "pickup_state \<Rightarrow> nat" where
  "state_rank queued = 0"
| "state_rank assigned = 1"
| "state_rank collected = 2"
| "state_rank delivered = 3"

section \<open>The store client\<close>

text \<open>
  The pages talk to the database through the supabase-js query builder, which sends one
  PostgREST request per awaited chain and answers \<^verbatim>\<open>{ data, error }\<close>.
  \<^item> \<^verbatim>\<open>from(T).update(patch).eq(c1, v1).eq(c2, v2)\<close> is
    \<^verbatim>\<open>UPDATE T SET patch WHERE c1 = v1 AND c2 = v2\<close>: every row matching all filters
    gets the patch, every other row is left alone, and \<^verbatim>\<open>error\<close> is null however
    many rows matched (zero included).
  \<^item> \<^verbatim>\<open>from(T).insert(row)\<close> appends the row.
  \<^item> \<^verbatim>\<open>from(T).select(..).eq(..).in(..).order(c, {ascending: true})\<close> answers the rows
    matching all filters, ordered by the column.
  \<^item> \<^verbatim>\<open>.single()\<close> answers the row when the result has exactly one, and the error
    PGRST116 otherwise.
  A request can also fail as a whole (transport or database failure); that is the
  parameter \<open>fault\<close> of each call, and a failed request changes nothing.
  The row-level security policies of \<^verbatim>\<open>seed.sql\<close> are outside the model: the
  caller is one whose requests the policies let through.
\<close>

datatype pg_error = PgError string

datatype pickup_filter =
  Eq_id string
| Eq_state pickup_state
| Eq_volunteer_id string
| In_state "pickup_state list"

fun matches :: "pickup_filter \<Rightarrow> Pickup \<Rightarrow> bool" where
  "matches (Eq_id v) r = (id_p r = v)"
| "matches (Eq_state s) r = (state r = s)"
| "matches (Eq_volunteer_id v) r = (volunteer_id r = Some v)"
| "matches (In_state ss) r = (state r \<in> set ss)"

datatype pickup_assign =
  Set_state pickup_state
| Set_volunteer_id string
| Set_updated_at timestamp

fun assign :: "Pickup \<Rightarrow> pickup_assign \<Rightarrow> Pickup" where
  "assign r (Set_state s) = r\<lparr>state := s\<rparr>"
| "assign r (Set_volunteer_id v) = r\<lparr>volunteer_id := Some v\<rparr>"
| "assign r (Set_updated_at t) = r\<lparr>updated_at := t\<rparr>"

definition update_rows ::
  "pg_error option \<Rightarrow> pickup_assign list \<Rightarrow> pickup_filter list \<Rightarrow> Pickup list
     \<Rightarrow> pg_error option \<times> Pickup list" where
  "update_rows fault patch filters rows =
     (case fault of
        Some e \<Rightarrow> (Some e, rows)
      | None \<Rightarrow>
          (None, map (\<lambda>r. if list_all (\<lambda>f. matches f r) filters
                           then foldl assign r patch else r) rows))"

definition insert_row :: "pg_error option \<Rightarrow> 'a \<Rightarrow> 'a list \<Rightarrow> pg_error option \<times> 'a list" where
  "insert_row fault row rows =
     (case fault of Some e \<Rightarrow> (Some e, rows) | None \<Rightarrow> (None, rows @ [row]))"

definition select_rows ::
  "pg_error option \<Rightarrow> pickup_filter list \<Rightarrow> Pickup list \<Rightarrow> pg_error + Pickup list" where
  "select_rows fault filters rows =
     (case fault of
        Some e \<Rightarrow> Inl e
      | None \<Rightarrow> Inr (sort_key created_at (filter (\<lambda>r. list_all (\<lambda>f. matches f r) filters) rows)))"

definition select_all :: "pg_error option \<Rightarrow> 'a list \<Rightarrow> pg_error + 'a list" where
  "select_all fault rows = (case fault of Some e \<Rightarrow> Inl e | None \<Rightarrow> Inr rows)"

fun single :: "pg_error + 'a list \<Rightarrow> pg_error + 'a" where
  "single (Inl e) = Inl e"
| "single (Inr [r]) = Inr r"
| "single (Inr rows) = Inl (PgError ''PGRST116'')"

section \<open>Driver job board (pages/driver/jobs.tsx)\<close>

text \<open>
  What a mutation or query closes over: \<open>user\<close> is \<^verbatim>\<open>user?.id\<close> of the
  \<^verbatim>\<open>useUser()\<close> hook (\<open>None\<close> when there is no user), \<open>now\<close> the clock.
\<close>

record env =
  user :: "string option"
  now :: timestamp

text \<open>What a \<^verbatim>\<open>mutationFn\<close> throws.\<close>

datatype mutation_error =
  NotAuthenticated
| StoreError pg_error

text \<open>
  The guard \<^verbatim>\<open>!user?.id\<close> holds when there is no user and when the id is the empty
  string; each function below that has it branches on both.
\<close>

definition availableJobs :: "pg_error option \<Rightarrow> db \<Rightarrow> pg_error + Pickup list" where
  "availableJobs fault d = select_rows fault [Eq_state queued] (Pickup_table d)"

definition myJobs :: "env \<Rightarrow> pg_error option \<Rightarrow> db \<Rightarrow> pg_error + Pickup list" where
  "myJobs e fault d =
     (case user e of
        None \<Rightarrow> Inr []
      | Some uid \<Rightarrow>
          if uid = [] then Inr []
          else select_rows fault
                 [Eq_volunteer_id uid, In_state [assigned, collected]]
                 (Pickup_table d))"

definition acceptJob ::
  "env \<Rightarrow> pg_error option \<Rightarrow> string \<Rightarrow> db \<Rightarrow> (mutation_error + unit) \<times> db" where
  "acceptJob e fault pickupId d =
     (case user e of
        None \<Rightarrow> (Inl NotAuthenticated, d)
      | Some uid \<Rightarrow>
          if uid = [] then (Inl NotAuthenticated, d)
          else
            (case update_rows fault
                    [Set_state assigned, Set_volunteer_id uid, Set_updated_at (now e)]
                    [Eq_id pickupId, Eq_state queued]
                    (Pickup_table d) of
               (Some err, rows) \<Rightarrow> (Inl (StoreError err), d\<lparr>Pickup_table := rows\<rparr>)
             | (None, rows) \<Rightarrow> (Inr (), d\<lparr>Pickup_table := rows\<rparr>)))"

definition markCollected ::
  "env \<Rightarrow> pg_error option \<Rightarrow> string \<Rightarrow> db \<Rightarrow> (mutation_error + unit) \<times> db" where
  "markCollected e fault pickupId d =
     (case update_rows fault
             [Set_state collected, Set_updated_at (now e)]
             [Eq_id pickupId, Eq_state assigned]
             (Pickup_table d) of
        (Some err, rows) \<Rightarrow> (Inl (StoreError err), d\<lparr>Pickup_table := rows\<rparr>)
      | (None, rows) \<Rightarrow> (Inr (), d\<lparr>Pickup_table := rows\<rparr>))"

text \<open>
  \<open>markDelivered\<close> makes two requests, each with its own fault: the update of the
  pickup, then the insert of the fixed impact record.
\<close>

definition markDelivered ::
  "env \<Rightarrow> pg_error option \<Rightarrow> pg_error option \<Rightarrow> string \<Rightarrow> db
     \<Rightarrow> (mutation_error + unit) \<times> db" where
  "markDelivered e fault1 fault2 pickupId d =
     (case update_rows fault1
             [Set_state delivered, Set_updated_at (now e)]
             [Eq_id pickupId, Eq_state collected]
             (Pickup_table d) of
        (Some pickupError, rows) \<Rightarrow> (Inl (StoreError pickupError), d\<lparr>Pickup_table := rows\<rparr>)
      | (None, rows) \<Rightarrow>
          (case insert_row fault2
                  \<lparr>cans = Some 200, revenue_pence = Some 160, meals = Some 10\<rparr>
                  (Impact_table d) of
             (Some impactError, ledger) \<Rightarrow>
               (Inl (StoreError impactError), d\<lparr>Pickup_table := rows, Impact_table := ledger\<rparr>)
           | (None, ledger) \<Rightarrow>
               (Inr (), d\<lparr>Pickup_table := rows, Impact_table := ledger\<rparr>)))"

section \<open>Admin dashboard (pages/admin/index_backup.tsx, index_new.tsx)\<close>

text \<open>
  \<^verbatim>\<open>updatePickupState\<close> (\<^verbatim>\<open>updatePickup\<close> in index_new.tsx, the same body): the
  state picked in the drop-down is written to the row with the id, whatever its state.
\<close>

definition updatePickupState ::
  "env \<Rightarrow> pg_error option \<Rightarrow> string \<Rightarrow> pickup_state \<Rightarrow> db
     \<Rightarrow> (mutation_error + unit) \<times> db" where
  "updatePickupState e fault ident s d =
     (case update_rows fault [Set_state s, Set_updated_at (now e)] [Eq_id ident]
             (Pickup_table d) of
        (Some err, rows) \<Rightarrow> (Inl (StoreError err), d\<lparr>Pickup_table := rows\<rparr>)
      | (None, rows) \<Rightarrow> (Inr (), d\<lparr>Pickup_table := rows\<rparr>))"

text \<open>\<^verbatim>\<open>x || 0\<close> on a nullable number.\<close>

fun or_zero :: "int option \<Rightarrow> int" where
  "or_zero None = 0"
| "or_zero (Some v) = v"

text \<open>The callback of \<^verbatim>\<open>data.reduce\<close> in index_backup.tsx, and the query around it.\<close>

definition add_impact :: "int Impact \<Rightarrow> int option Impact \<Rightarrow> int Impact" where
  "add_impact acc cur =
     \<lparr>cans = cans acc + or_zero (cans cur),
      revenue_pence = revenue_pence acc + or_zero (revenue_pence cur),
      meals = meals acc + or_zero (meals cur)\<rparr>"

definition impact_backup :: "pg_error option \<Rightarrow> db \<Rightarrow> pg_error + int Impact" where
  "impact_backup fault d =
     (case select_all fault (Impact_table d) of
        Inl e \<Rightarrow> Inl e
      | Inr data \<Rightarrow> Inr (foldl add_impact \<lparr>cans = 0, revenue_pence = 0, meals = 0\<rparr> data))"

text \<open>The impact query of index_new.tsx: \<^verbatim>\<open>select('*').single()\<close>.\<close>

definition impact_new :: "pg_error option \<Rightarrow> db \<Rightarrow> pg_error + int option Impact" where
  "impact_new fault d = single (select_all fault (Impact_table d))"

section \<open>Properties and runs\<close>


text \<open>
  Two tables row by row: the same pickups, each state either kept or moved to the next
  one of the chain (\<open>forward_step\<close>), or never moved to an earlier one
  (\<open>never_back\<close>).
\<close>

definition forward_step :: "Pickup list \<Rightarrow> Pickup list \<Rightarrow> bool" where
  "forward_step rows rows' =
     list_all2 (\<lambda>r r'. id_p r' = id_p r \<and>
        (state_rank (state r') = state_rank (state r) \<or>
         state_rank (state r') = Suc (state_rank (state r)))) rows rows'"

definition never_back :: "Pickup list \<Rightarrow> Pickup list \<Rightarrow> bool" where
  "never_back rows rows' =
     list_all2 (\<lambda>r r'. id_p r' = id_p r \<and> state_rank (state r) \<le> state_rank (state r')) rows rows'"

text \<open>
  The three mutations of the driver page as calls, and the table after a sequence of them.
\<close>

datatype driver_call =
  AcceptJob env "pg_error option" string
| MarkCollected env "pg_error option" string
| MarkDelivered env "pg_error option" "pg_error option" string

fun call :: "driver_call \<Rightarrow> db \<Rightarrow> (mutation_error + unit) \<times> db" where
  "call (AcceptJob e fault pickupId) d = acceptJob e fault pickupId d"
| "call (MarkCollected e fault pickupId) d = markCollected e fault pickupId d"
| "call (MarkDelivered e fault1 fault2 pickupId) d = markDelivered e fault1 fault2 pickupId d"

fun calls :: "driver_call list \<Rightarrow> db \<Rightarrow> db" where
  "calls [] d = d"
| "calls (c # cs) d = calls cs (snd (call c d))"

text \<open>
  Several drivers accepting the same job. Each \<open>acceptJob\<close> is one update request and
  the database runs the requests on a row one after the other, so a run of concurrent
  calls is the calls in some order; \<open>claims\<close> is the run in the order of the list,
  with the result of every call.
\<close>

fun claims :: "env list \<Rightarrow> string \<Rightarrow> db \<Rightarrow> (mutation_error + unit) list \<times> db" where
  "claims [] pickupId d = ([], d)"
| "claims (e # es) pickupId d =
     (case acceptJob e None pickupId d of
        (r, d1) \<Rightarrow> (case claims es pickupId d1 of (rs, d2) \<Rightarrow> (r # rs, d2)))"

section \<open>What each request does\<close>

lemma update_rows_ok:
  "update_rows None patch filters rows =
     (None, map (\<lambda>r. if list_all (\<lambda>f. matches f r) filters then foldl assign r patch else r) rows)"
  by (simp add: update_rows_def)

lemma update_rows_fault: "update_rows (Some x) patch filters rows = (Some x, rows)"
  by (simp add: update_rows_def)

lemma acceptJob_ok:
  "acceptJob (e\<lparr>user := Some (c # cs)\<rparr>) None pickupId d =
     (Inr (), d\<lparr>Pickup_table :=
        map (\<lambda>r. if id_p r = pickupId \<and> state r = queued
                  then r\<lparr>state := assigned, volunteer_id := Some (c # cs), updated_at := now e\<rparr>
                  else r) (Pickup_table d)\<rparr>)"
  by (simp add: acceptJob_def update_rows_ok)

lemma acceptJob_fault:
  "acceptJob e (Some x) pickupId d =
     (if user e = None \<or> user e = Some [] then Inl NotAuthenticated else Inl (StoreError x), d)"
  by (simp add: acceptJob_def update_rows_fault split: option.splits)

lemma acceptJob_no_user:
  "user e = None \<or> user e = Some [] \<Longrightarrow> acceptJob e fault pickupId d = (Inl NotAuthenticated, d)"
  by (auto simp add: acceptJob_def)

lemma markCollected_ok:
  "markCollected e None pickupId d =
     (Inr (), d\<lparr>Pickup_table :=
        map (\<lambda>r. if id_p r = pickupId \<and> state r = assigned
                  then r\<lparr>state := collected, updated_at := now e\<rparr>
                  else r) (Pickup_table d)\<rparr>)"
  by (simp add: markCollected_def update_rows_ok)

lemma markCollected_fault:
  "markCollected e (Some x) pickupId d = (Inl (StoreError x), d)"
  by (simp add: markCollected_def update_rows_fault)

lemma markDelivered_ok:
  "markDelivered e None None pickupId d =
     (Inr (), d\<lparr>Pickup_table :=
        map (\<lambda>r. if id_p r = pickupId \<and> state r = collected
                  then r\<lparr>state := delivered, updated_at := now e\<rparr>
                  else r) (Pickup_table d),
        Impact_table :=
          Impact_table d @ [\<lparr>cans = Some 200, revenue_pence = Some 160, meals = Some 10\<rparr>]\<rparr>)"
  by (simp add: markDelivered_def update_rows_ok insert_row_def)

lemma markDelivered_fault1:
  "markDelivered e (Some x) fault2 pickupId d = (Inl (StoreError x), d)"
  by (simp add: markDelivered_def update_rows_fault)

lemma markDelivered_fault2:
  "markDelivered e None (Some x) pickupId d =
     (Inl (StoreError x), d\<lparr>Pickup_table :=
        map (\<lambda>r. if id_p r = pickupId \<and> state r = collected
                  then r\<lparr>state := delivered, updated_at := now e\<rparr>
                  else r) (Pickup_table d)\<rparr>)"
  by (simp add: markDelivered_def update_rows_ok insert_row_def)



lemma select_rows_ok:
  "select_rows None filters rows =
     Inr (sort_key created_at (filter (\<lambda>r. list_all (\<lambda>f. matches f r) filters) rows))"
  by (simp add: select_rows_def)

lemma acceptJob_cases:
  "(\<exists>c cs t. snd (acceptJob e fault pickupId d) = d\<lparr>Pickup_table :=
        map (\<lambda>r. if id_p r = pickupId \<and> state r = queued
                  then r\<lparr>state := assigned, volunteer_id := Some (c # cs), updated_at := t\<rparr>
                  else r) (Pickup_table d)\<rparr>)
   \<or> snd (acceptJob e fault pickupId d) = d"
proof (cases fault)
  case (Some x)
  then show ?thesis by (simp add: acceptJob_fault)
next
  case None
  show ?thesis
  proof (cases "user e")
    case None
    then show ?thesis by (simp add: acceptJob_no_user)
  next
    case (Some u)
    show ?thesis
    proof (cases u)
      case Nil
      with Some show ?thesis by (simp add: acceptJob_no_user)
    next
      case (Cons c cs)
      with Some have "e = e\<lparr>user := Some (c # cs)\<rparr>" by simp
      then have "acceptJob e None pickupId d = acceptJob (e\<lparr>user := Some (c # cs)\<rparr>) None pickupId d"
        by simp
      with \<open>fault = None\<close> show ?thesis
        by (simp only: acceptJob_ok) auto
    qed
  qed
qed

lemma markCollected_cases:
  "snd (markCollected e fault pickupId d) = d\<lparr>Pickup_table :=
        map (\<lambda>r. if id_p r = pickupId \<and> state r = assigned
                  then r\<lparr>state := collected, updated_at := now e\<rparr>
                  else r) (Pickup_table d)\<rparr>
   \<or> snd (markCollected e fault pickupId d) = d"
  by (cases fault) (simp_all add: markCollected_ok markCollected_fault)

lemma markDelivered_cases:
  "Pickup_table (snd (markDelivered e fault1 fault2 pickupId d)) =
        map (\<lambda>r. if id_p r = pickupId \<and> state r = collected
                  then r\<lparr>state := delivered, updated_at := now e\<rparr>
                  else r) (Pickup_table d)
   \<or> Pickup_table (snd (markDelivered e fault1 fault2 pickupId d)) = Pickup_table d"
  by (cases fault1; cases fault2)
     (simp_all add: markDelivered_ok markDelivered_fault1 markDelivered_fault2)




lemma forward_step_map:
  assumes "\<And>r. P r \<Longrightarrow> id_p (f r) = id_p r \<and> state_rank (state (f r)) = Suc (state_rank (state r))"
  shows "forward_step rows (map (\<lambda>r. if P r then f r else r) rows)"
  unfolding forward_step_def using assms by (induction rows) auto

lemma forward_step_refl: "forward_step rows rows"
  by (simp add: forward_step_def list_all2_same)

lemma forward_step_acceptJob:
  "forward_step (Pickup_table d) (Pickup_table (snd (acceptJob e fault pickupId d)))"
  using acceptJob_cases [of e fault pickupId d]
  by (auto simp add: forward_step_refl intro!: forward_step_map)

lemma forward_step_markCollected:
  "forward_step (Pickup_table d) (Pickup_table (snd (markCollected e fault pickupId d)))"
  using markCollected_cases [of e fault pickupId d]
  by (auto simp add: forward_step_refl intro!: forward_step_map)

lemma forward_step_markDelivered:
  "forward_step (Pickup_table d) (Pickup_table (snd (markDelivered e fault1 fault2 pickupId d)))"
  using markDelivered_cases [of e fault1 fault2 pickupId d]
  by (auto simp add: forward_step_refl intro!: forward_step_map)

lemma forward_step_call:
  "forward_step (Pickup_table d) (Pickup_table (snd (call c d)))"
  by (cases c)
     (simp_all add: forward_step_acceptJob forward_step_markCollected forward_step_markDelivered)

lemma never_back_refl: "never_back rows rows"
  by (simp add: never_back_def list_all2_same)

lemma forward_then_never_back:
  assumes "forward_step rows rows'" and "never_back rows' rows''"
  shows "never_back rows rows''"
proof -
  have a: "list_all2 (\<lambda>r r'. id_p r' = id_p r \<and>
        (state_rank (state r') = state_rank (state r) \<or>
         state_rank (state r') = Suc (state_rank (state r)))) rows rows'"
    using assms(1) by (simp add: forward_step_def)
  have b: "list_all2 (\<lambda>r r'. id_p r' = id_p r \<and> state_rank (state r) \<le> state_rank (state r'))
             rows' rows''"
    using assms(2) by (simp add: never_back_def)
  show ?thesis
    unfolding never_back_def by (rule list_all2_trans [OF _ a b]) auto
qed

lemma never_back_calls:
  "never_back (Pickup_table d) (Pickup_table (calls cs d))"
proof (induction cs arbitrary: d)
  case Nil
  show ?case by (simp add: never_back_refl)
next
  case (Cons c cs)
  show ?case
    using forward_step_call [of d c] Cons.IH [of "snd (call c d)"]
    by (simp add: forward_then_never_back)
qed

lemma foldl_add_impact:
  "foldl add_impact acc rows =
     \<lparr>cans = cans acc + sum_list (map (or_zero \<circ> cans) rows),
      revenue_pence = revenue_pence acc + sum_list (map (or_zero \<circ> revenue_pence) rows),
      meals = meals acc + sum_list (map (or_zero \<circ> meals) rows)\<rparr>"
  by (induction rows arbitrary: acc) (simp_all add: add_impact_def add.assoc)

lemma sum_list_map_mset:
  fixes f :: "'a \<Rightarrow> int"
  assumes "mset xs = mset ys"
  shows "sum_list (map f xs) = sum_list (map f ys)"
proof -
  have "sum_mset (mset (map f xs)) = sum_mset (mset (map f ys))"
    using assms by simp
  then show ?thesis
    by (simp only: sum_mset_sum_list)
qed

section \<open>The pickup lifecycle\<close>

text \<open>
  Claim C1 asks that \<open>markDelivered\<close> appends to the impact ledger only when the
  conditional transition to \<open>delivered\<close> took effect, so that a second call on the same
  pickup appends nothing. The code inserts the Impact record whenever the update request
  came back without an error, and an update that matched no row comes back without one.
  On a collected pickup the first call resolves, moves the pickup to \<open>delivered\<close> and
  appends one record; the second call resolves as well, leaves the pickup as it is and
  appends a second record.
\<close>

theorem markDelivered_twice_appends_twice:
  "markDelivered \<lparr>user = Some ''driverA'', now = 4\<rparr> None None ''p1''
     \<lparr>Pickup_table =
        [\<lparr>id_p = ''p1'', bin_id = ''b1'', volunteer_id = Some ''driverA'', state = collected,
          created_at = 1, updated_at = 3\<rparr>], Impact_table = []\<rparr>
   = (Inr (),
      \<lparr>Pickup_table =
        [\<lparr>id_p = ''p1'', bin_id = ''b1'', volunteer_id = Some ''driverA'', state = delivered,
          created_at = 1, updated_at = 4\<rparr>],
       Impact_table = [\<lparr>cans = Some 200, revenue_pence = Some 160, meals = Some 10\<rparr>]\<rparr>)
   \<and> markDelivered \<lparr>user = Some ''driverA'', now = 5\<rparr> None None ''p1''
     \<lparr>Pickup_table =
        [\<lparr>id_p = ''p1'', bin_id = ''b1'', volunteer_id = Some ''driverA'', state = delivered,
          created_at = 1, updated_at = 4\<rparr>],
      Impact_table = [\<lparr>cans = Some 200, revenue_pence = Some 160, meals = Some 10\<rparr>]\<rparr>
   = (Inr (),
      \<lparr>Pickup_table =
        [\<lparr>id_p = ''p1'', bin_id = ''b1'', volunteer_id = Some ''driverA'', state = delivered,
          created_at = 1, updated_at = 4\<rparr>],
       Impact_table = [\<lparr>cans = Some 200, revenue_pence = Some 160, meals = Some 10\<rparr>,
                       \<lparr>cans = Some 200, revenue_pence = Some 160, meals = Some 10\<rparr>]\<rparr>)"
  by (simp add: markDelivered_def update_rows_def insert_row_def)

text \<open>
  Claim C2 asks that accepting a job that is no longer queued reports a conflict and
  leaves the record unchanged. The record is left unchanged, but the call reports
  success: \<open>acceptJob\<close> by driverB on a pickup already assigned to driverA resolves
  without an error and with the table as it was.
\<close>

theorem acceptJob_taken_reports_success:
  "acceptJob \<lparr>user = Some ''driverB'', now = 3\<rparr> None ''p1''
     \<lparr>Pickup_table =
        [\<lparr>id_p = ''p1'', bin_id = ''b1'', volunteer_id = Some ''driverA'', state = assigned,
          created_at = 1, updated_at = 2\<rparr>], Impact_table = []\<rparr>
   = (Inr (),
      \<lparr>Pickup_table =
        [\<lparr>id_p = ''p1'', bin_id = ''b1'', volunteer_id = Some ''driverA'', state = assigned,
          created_at = 1, updated_at = 2\<rparr>], Impact_table = []\<rparr>)"
  by (simp add: acceptJob_def update_rows_def)

text \<open>
  Claim C3 asks that of N concurrent claims of one queued pickup exactly one succeeds
  and the others report a conflict, the pickup ending assigned to the winner. With two
  drivers the pickup ends assigned to the first one, and both calls report success.
\<close>

theorem two_claims_both_report_success:
  "claims [\<lparr>user = Some ''driverA'', now = 2\<rparr>, \<lparr>user = Some ''driverB'', now = 3\<rparr>] ''p1''
     \<lparr>Pickup_table =
        [\<lparr>id_p = ''p1'', bin_id = ''b1'', volunteer_id = None, state = queued,
          created_at = 1, updated_at = 1\<rparr>], Impact_table = []\<rparr>
   = ([Inr (), Inr ()],
      \<lparr>Pickup_table =
        [\<lparr>id_p = ''p1'', bin_id = ''b1'', volunteer_id = Some ''driverA'', state = assigned,
          created_at = 1, updated_at = 2\<rparr>], Impact_table = []\<rparr>)"
  by (simp add: acceptJob_def update_rows_def)




text \<open>
  Claim C5, for the mutations of the driver page: every call leaves each pickup in its
  state or moves it to the next state of queued, assigned, collected, delivered, and over
  any sequence of calls no pickup ever reaches an earlier state than it had.
\<close>

theorem driver_calls_forward:
  "forward_step (Pickup_table d) (Pickup_table (snd (call c d)))
   \<and> never_back (Pickup_table d) (Pickup_table (calls cs d))"
  by (simp add: forward_step_call never_back_calls)

text \<open>
  The admin's \<open>updatePickupState\<close> writes any state: a delivered pickup goes back to
  \<open>queued\<close>, and a queued pickup jumps to \<open>delivered\<close>.
\<close>

theorem admin_backward_counterexample:
  "Pickup_table
     (snd (updatePickupState \<lparr>user = Some ''admin'', now = 2\<rparr> None ''p1'' queued
        \<lparr>Pickup_table =
           [\<lparr>id_p = ''p1'', bin_id = ''b1'', volunteer_id = Some ''driverA'', state = delivered,
             created_at = 1, updated_at = 1\<rparr>], Impact_table = []\<rparr>))
   = [\<lparr>id_p = ''p1'', bin_id = ''b1'', volunteer_id = Some ''driverA'', state = queued,
       created_at = 1, updated_at = 2\<rparr>]
   \<and> \<not> forward_step
       [\<lparr>id_p = ''p1'', bin_id = ''b1'', volunteer_id = Some ''driverA'', state = delivered,
             created_at = 1, updated_at = 1\<rparr>]
       (Pickup_table
         (snd (updatePickupState \<lparr>user = Some ''admin'', now = 2\<rparr> None ''p1'' queued
            \<lparr>Pickup_table =
               [\<lparr>id_p = ''p1'', bin_id = ''b1'', volunteer_id = Some ''driverA'', state = delivered,
                 created_at = 1, updated_at = 1\<rparr>], Impact_table = []\<rparr>)))
   \<and> \<not> forward_step
       [\<lparr>id_p = ''p1'', bin_id = ''b1'', volunteer_id = None, state = queued,
             created_at = 1, updated_at = 1\<rparr>]
       (Pickup_table
         (snd (updatePickupState \<lparr>user = Some ''admin'', now = 2\<rparr> None ''p1'' delivered
            \<lparr>Pickup_table =
               [\<lparr>id_p = ''p1'', bin_id = ''b1'', volunteer_id = None, state = queued,
                 created_at = 1, updated_at = 1\<rparr>], Impact_table = []\<rparr>)))"
  by (simp add: forward_step_def updatePickupState_def update_rows_def)




text \<open>
  Claim C10. \<open>markCollected\<close> and \<open>markDelivered\<close> do not look at the caller: their
  result is the same for every user, the only error they return is the store's own, and a
  pickup in the expected state makes the transition whoever it is assigned to.
\<close>

theorem no_ownership_check:
  "markCollected (e\<lparr>user := u\<rparr>) fault pickupId d = markCollected e fault pickupId d
   \<and> markDelivered (e\<lparr>user := u\<rparr>) fault1 fault2 pickupId d = markDelivered e fault1 fault2 pickupId d
   \<and> fst (markCollected e fault pickupId d) =
       (case fault of None \<Rightarrow> Inr () | Some x \<Rightarrow> Inl (StoreError x))
   \<and> fst (markDelivered e fault1 fault2 pickupId d) =
       (case fault1 of
          Some x \<Rightarrow> Inl (StoreError x)
        | None \<Rightarrow> (case fault2 of None \<Rightarrow> Inr () | Some x \<Rightarrow> Inl (StoreError x)))
   \<and> (p \<in> set (Pickup_table d) \<and> state p = assigned \<longrightarrow>
        p\<lparr>state := collected, updated_at := now e\<rparr>
          \<in> set (Pickup_table (snd (markCollected e None (id_p p) d))))
   \<and> (p \<in> set (Pickup_table d) \<and> state p = collected \<longrightarrow>
        p\<lparr>state := delivered, updated_at := now e\<rparr>
          \<in> set (Pickup_table (snd (markDelivered e None None (id_p p) d))))"
proof -
  have a: "markCollected (e\<lparr>user := u\<rparr>) fault pickupId d = markCollected e fault pickupId d"
    by (simp add: markCollected_def)
  have b: "markDelivered (e\<lparr>user := u\<rparr>) fault1 fault2 pickupId d = markDelivered e fault1 fault2 pickupId d"
    by (simp add: markDelivered_def)
  have c: "fst (markCollected e fault pickupId d) =
       (case fault of None \<Rightarrow> Inr () | Some x \<Rightarrow> Inl (StoreError x))"
    by (cases fault) (simp_all add: markCollected_ok markCollected_fault)
  have d: "fst (markDelivered e fault1 fault2 pickupId d) =
       (case fault1 of
          Some x \<Rightarrow> Inl (StoreError x)
        | None \<Rightarrow> (case fault2 of None \<Rightarrow> Inr () | Some x \<Rightarrow> Inl (StoreError x)))"
    by (cases fault1; cases fault2)
       (simp_all add: markDelivered_ok markDelivered_fault1 markDelivered_fault2)
  have e: "p \<in> set (Pickup_table d) \<and> state p = assigned \<longrightarrow>
        p\<lparr>state := collected, updated_at := now e\<rparr>
          \<in> set (Pickup_table (snd (markCollected e None (id_p p) d)))"
    by (auto simp add: markCollected_ok image_iff intro!: bexI [of _ p])
  have f: "p \<in> set (Pickup_table d) \<and> state p = collected \<longrightarrow>
        p\<lparr>state := delivered, updated_at := now e\<rparr>
          \<in> set (Pickup_table (snd (markDelivered e None None (id_p p) d)))"
    by (auto simp add: markDelivered_ok image_iff intro!: bexI [of _ p])
  from a b c d e f show ?thesis by blast
qed

text \<open>
  A pickup assigned to driverA is marked collected by driverB, and delivered with no
  user at all.
\<close>

theorem no_ownership_check_witness:
  "\<lparr>id_p = ''p1'', bin_id = ''b1'', volunteer_id = Some ''driverA'', state = assigned,
      created_at = 1, updated_at = 2\<rparr>
     \<in> set [\<lparr>id_p = ''p1'', bin_id = ''b1'', volunteer_id = Some ''driverA'', state = assigned,
             created_at = 1, updated_at = 2\<rparr>]
   \<and> markCollected \<lparr>user = Some ''driverB'', now = 3\<rparr> None ''p1''
       \<lparr>Pickup_table =
          [\<lparr>id_p = ''p1'', bin_id = ''b1'', volunteer_id = Some ''driverA'', state = assigned,
            created_at = 1, updated_at = 2\<rparr>], Impact_table = []\<rparr>
     = (Inr (),
        \<lparr>Pickup_table =
          [\<lparr>id_p = ''p1'', bin_id = ''b1'', volunteer_id = Some ''driverA'', state = collected,
            created_at = 1, updated_at = 3\<rparr>], Impact_table = []\<rparr>)
   \<and> \<lparr>id_p = ''p1'', bin_id = ''b1'', volunteer_id = Some ''driverA'', state = collected,
       created_at = 1, updated_at = 3\<rparr>
     \<in> set [\<lparr>id_p = ''p1'', bin_id = ''b1'', volunteer_id = Some ''driverA'', state = collected,
             created_at = 1, updated_at = 3\<rparr>]
   \<and> markDelivered \<lparr>user = None, now = 4\<rparr> None None ''p1''
       \<lparr>Pickup_table =
          [\<lparr>id_p = ''p1'', bin_id = ''b1'', volunteer_id = Some ''driverA'', state = collected,
            created_at = 1, updated_at = 3\<rparr>], Impact_table = []\<rparr>
     = (Inr (),
        \<lparr>Pickup_table =
          [\<lparr>id_p = ''p1'', bin_id = ''b1'', volunteer_id = Some ''driverA'', state = delivered,
            created_at = 1, updated_at = 4\<rparr>],
         Impact_table = [\<lparr>cans = Some 200, revenue_pence = Some 160, meals = Some 10\<rparr>]\<rparr>)"
proof -
  let ?p = "\<lparr>id_p = ''p1'', bin_id = ''b1'', volunteer_id = Some ''driverA'', state = assigned,
       created_at = 1, updated_at = 2\<rparr>"
  let ?q = "\<lparr>id_p = ''p1'', bin_id = ''b1'', volunteer_id = Some ''driverA'', state = collected,
       created_at = 1, updated_at = 3\<rparr>"
  have 1: "?p \<in> set (Pickup_table \<lparr>Pickup_table = [?p], Impact_table = []\<rparr>) \<and> state ?p = assigned"
    by simp
  have 2: "?q \<in> set (Pickup_table \<lparr>Pickup_table = [?q], Impact_table = []\<rparr>) \<and> state ?q = collected"
    by simp
  have 3: "markCollected \<lparr>user = Some ''driverB'', now = 3\<rparr> None ''p1'' \<lparr>Pickup_table = [?p], Impact_table = []\<rparr>
     = (Inr (), \<lparr>Pickup_table = [?q], Impact_table = []\<rparr>)"
    by (simp add: markCollected_def update_rows_def)
  have 4: "markDelivered \<lparr>user = None, now = 4\<rparr> None None ''p1''
       \<lparr>Pickup_table = [?q], Impact_table = []\<rparr>
     = (Inr (),
        \<lparr>Pickup_table =
          [\<lparr>id_p = ''p1'', bin_id = ''b1'', volunteer_id = Some ''driverA'', state = delivered,
            created_at = 1, updated_at = 4\<rparr>],
         Impact_table = [\<lparr>cans = Some 200, revenue_pence = Some 160, meals = Some 10\<rparr>]\<rparr>)"
    by (simp add: markDelivered_def update_rows_def insert_row_def)
  from no_ownership_check
         [where e = "\<lparr>user = Some ''driverB'', now = 3\<rparr>" and fault = None
            and d = "\<lparr>Pickup_table = [?p], Impact_table = []\<rparr>" and p = ?p]
       no_ownership_check
         [where e = "\<lparr>user = None, now = 4\<rparr>" and fault = None
            and d = "\<lparr>Pickup_table = [?q], Impact_table = []\<rparr>" and p = ?q]
       1 2 3 4
  show ?thesis by simp
qed

section \<open>The job board\<close>

text \<open>
  Claim C9. The two queries of the job board only read the Pickup table (they are
  functions of the database with no database in their result). Without a store fault,
  \<open>availableJobs\<close> answers the queued pickups, each as often as the table has it, in
  ascending order of \<open>created_at\<close>; \<open>myJobs\<close> for a signed-in driver answers that
  driver's assigned and collected pickups in ascending order of \<open>created_at\<close>, so no
  queued or delivered pickup and no pickup of another driver. The embedded
  \<^verbatim>\<open>Bin\<close> and \<^verbatim>\<open>Partner\<close> objects decorate a row and do not select rows.
\<close>

theorem job_board_views:
  "(\<exists>jobs. availableJobs None d = Inr jobs
       \<and> sorted (map created_at jobs)
       \<and> mset jobs = filter_mset (\<lambda>p. state p = queued) (mset (Pickup_table d)))
   \<and> (\<exists>jobs. myJobs (e\<lparr>user := Some (c # cs)\<rparr>) None d = Inr jobs
       \<and> sorted (map created_at jobs)
       \<and> mset jobs =
           filter_mset (\<lambda>p. volunteer_id p = Some (c # cs) \<and> (state p = assigned \<or> state p = collected))
             (mset (Pickup_table d))
       \<and> list_all (\<lambda>p. volunteer_id p = Some (c # cs) \<and> state p \<noteq> queued \<and> state p \<noteq> delivered) jobs)"
proof -
  have a: "\<exists>jobs. availableJobs None d = Inr jobs
       \<and> sorted (map created_at jobs)
       \<and> mset jobs = filter_mset (\<lambda>p. state p = queued) (mset (Pickup_table d))"
    by (simp add: availableJobs_def select_rows_ok)
  let ?mine = "sort_key created_at
     (filter (\<lambda>r. list_all (\<lambda>f. matches f r) [Eq_volunteer_id (c # cs), In_state [assigned, collected]])
        (Pickup_table d))"
  have m: "myJobs (e\<lparr>user := Some (c # cs)\<rparr>) None d = Inr ?mine"
    by (simp add: myJobs_def select_rows_ok)
  have s: "sorted (map created_at ?mine)"
    by simp
  have f: "mset ?mine =
           filter_mset (\<lambda>p. volunteer_id p = Some (c # cs) \<and> (state p = assigned \<or> state p = collected))
             (mset (Pickup_table d))"
    by simp
  have l: "list_all (\<lambda>p. volunteer_id p = Some (c # cs) \<and> state p \<noteq> queued \<and> state p \<noteq> delivered) ?mine"
    by (auto simp add: list_all_iff)
  from a m s f l show ?thesis by blast
qed

section \<open>The impact totals\<close>

text \<open>
  Claim C7 asks that the impact query of index_backup.tsx (a sum over all records) and
  the one of index_new.tsx (\<^verbatim>\<open>.single()\<close>) answer the same totals for every ledger.
  On a ledger of two records the first answers (30,15,3) and the second the error
  PGRST116; on the empty ledger the first answers (0,0,0) and the second the same error.
\<close>

theorem impact_queries_differ:
  "impact_backup None
     \<lparr>Pickup_table = [],
      Impact_table = [\<lparr>cans = Some 10, revenue_pence = Some 5, meals = Some 1\<rparr>,
                      \<lparr>cans = Some 20, revenue_pence = Some 10, meals = Some 2\<rparr>]\<rparr>
   = Inr \<lparr>cans = 30, revenue_pence = 15, meals = 3\<rparr>
   \<and> impact_new None
     \<lparr>Pickup_table = [],
      Impact_table = [\<lparr>cans = Some 10, revenue_pence = Some 5, meals = Some 1\<rparr>,
                      \<lparr>cans = Some 20, revenue_pence = Some 10, meals = Some 2\<rparr>]\<rparr>
   = Inl (PgError ''PGRST116'')
   \<and> impact_backup None \<lparr>Pickup_table = [], Impact_table = []\<rparr>
   = Inr \<lparr>cans = 0, revenue_pence = 0, meals = 0\<rparr>
   \<and> impact_new None \<lparr>Pickup_table = [], Impact_table = []\<rparr>
   = Inl (PgError ''PGRST116'')"
  by (simp add: impact_backup_def impact_new_def select_all_def add_impact_def)

text \<open>
  Claim C8. The impact query of index_backup.tsx answers, for every ledger, the
  element-wise sum of \<open>cans\<close>, \<open>revenue_pence\<close> and \<open>meals\<close> over all Impact
  records (a null column counting as 0); it answers the zero tuple on the empty ledger;
  two ledgers holding the same records in a different order give the same answer; and on
  the records (10,5,1), (20,10,2) the answer is (30,15,3).
\<close>

theorem aggregate_sum:
  "impact_backup None d =
     Inr \<lparr>cans = sum_list (map (or_zero \<circ> cans) (Impact_table d)),
          revenue_pence = sum_list (map (or_zero \<circ> revenue_pence) (Impact_table d)),
          meals = sum_list (map (or_zero \<circ> meals) (Impact_table d))\<rparr>
   \<and> impact_backup None (d\<lparr>Impact_table := []\<rparr>) =
       Inr \<lparr>cans = 0, revenue_pence = 0, meals = 0\<rparr>
   \<and> (mset (Impact_table d') = mset (Impact_table d) \<longrightarrow>
        impact_backup None d' = impact_backup None d)
   \<and> impact_backup None
        (d\<lparr>Impact_table :=
           [\<lparr>cans = Some 10, revenue_pence = Some 5, meals = Some 1\<rparr>,
            \<lparr>cans = Some 20, revenue_pence = Some 10, meals = Some 2\<rparr>]\<rparr>)
      = Inr \<lparr>cans = 30, revenue_pence = 15, meals = 3\<rparr>"
proof -
  have total: "\<And>x. impact_backup None x =
     Inr \<lparr>cans = sum_list (map (or_zero \<circ> cans) (Impact_table x)),
          revenue_pence = sum_list (map (or_zero \<circ> revenue_pence) (Impact_table x)),
          meals = sum_list (map (or_zero \<circ> meals) (Impact_table x))\<rparr>"
    by (simp add: impact_backup_def select_all_def foldl_add_impact)
  have perm: "mset (Impact_table d') = mset (Impact_table d) \<longrightarrow>
        impact_backup None d' = impact_backup None d"
    by (simp add: total sum_list_map_mset [of "Impact_table d'" "Impact_table d"])
  show ?thesis
    using total [of d] perm by (simp add: total)
qed

text \<open>
  The same totals from a ledger and from its reversal, one column null.
\<close>

theorem aggregate_sum_witness:
  "mset (Impact_table \<lparr>Pickup_table = [], Impact_table =
           [\<lparr>cans = Some 20, revenue_pence = None, meals = Some 2\<rparr>,
            \<lparr>cans = Some 10, revenue_pence = Some 5, meals = Some 1\<rparr>]\<rparr>)
   = mset (Impact_table \<lparr>Pickup_table = [], Impact_table =
           [\<lparr>cans = Some 10, revenue_pence = Some 5, meals = Some 1\<rparr>,
            \<lparr>cans = Some 20, revenue_pence = None, meals = Some 2\<rparr>]\<rparr>)
   \<and> impact_backup None \<lparr>Pickup_table = [], Impact_table =
           [\<lparr>cans = Some 20, revenue_pence = None, meals = Some 2\<rparr>,
            \<lparr>cans = Some 10, revenue_pence = Some 5, meals = Some 1\<rparr>]\<rparr>
     = Inr \<lparr>cans = 30, revenue_pence = 5, meals = 3\<rparr>
   \<and> impact_backup None \<lparr>Pickup_table = [], Impact_table =
           [\<lparr>cans = Some 10, revenue_pence = Some 5, meals = Some 1\<rparr>,
            \<lparr>cans = Some 20, revenue_pence = None, meals = Some 2\<rparr>]\<rparr>
     = Inr \<lparr>cans = 30, revenue_pence = 5, meals = 3\<rparr>"
  using aggregate_sum
    [of "\<lparr>Pickup_table = [], Impact_table =
           [\<lparr>cans = Some 10, revenue_pence = Some 5, meals = Some 1\<rparr>,
            \<lparr>cans = Some 20, revenue_pence = None, meals = Some 2\<rparr>]\<rparr>"
        "\<lparr>Pickup_table = [], Impact_table =
           [\<lparr>cans = Some 20, revenue_pence = None, meals = Some 2\<rparr>,
            \<lparr>cans = Some 10, revenue_pence = Some 5, meals = Some 1\<rparr>]\<rparr>"]
  by simp

end
